theory Spec2Isabelle
  imports Complex_Main "HOL-Library.AList"
begin

section \<open>PDF text and metadata extraction (src/backend/utils/pdf_utils.py)\<close>

text \<open>
  The module reads PDF files through two collaborators that are not part of it: the
  filesystem (\<^verbatim>\<open>Path.stat\<close>) and the pypdf parser (\<^verbatim>\<open>pypdf.PdfReader\<close>). Both are
  parameters of the model, collected in the record \<open>world\<close>; every call that can raise
  in Python returns a sum here, \<open>Inl\<close> carrying the exception. The calls to the logger
  write to a log file only and decide nothing, so they have no counterpart below.
\<close>

subsection \<open>Exceptions and Python values\<close>

text \<open>
  The subclasses of \<^verbatim>\<open>Exception\<close> that the three \<^verbatim>\<open>except\<close> clauses of
  \<^verbatim>\<open>extract_text_from_pdf\<close> tell apart, and \<^verbatim>\<open>TypeError\<close>. Each carries its
  message, which is what \<^verbatim>\<open>str(e)\<close> returns.
\<close>

datatype exn =
    FileNotFoundError string
  | PdfReadError string
  | OtherException string
  | TypeError string

fun str_of :: "exn \<Rightarrow> string" where
  "str_of (FileNotFoundError m) = m"
| "str_of (PdfReadError m) = m"
| "str_of (OtherException m) = m"
| "str_of (TypeError m) = m"

text \<open>
  \<^verbatim>\<open>extract_pdfs_with_metadata\<close> has no annotation on its argument and inspects its
  type at run time, so its argument is a Python value. \<open>PyPath p\<close> is a
  \<^verbatim>\<open>pathlib.Path\<close> object whose path is \<open>p\<close>: it is not a \<^verbatim>\<open>str\<close>, and
  \<^verbatim>\<open>Path\<close>, \<^verbatim>\<open>Path.stat\<close> and \<^verbatim>\<open>pypdf.PdfReader\<close> take it as they take the
  string \<open>p\<close>. Other implementations of \<^verbatim>\<open>os.PathLike\<close> are not among the values.
\<close>

datatype pyval =
    PyStr string
  | PyPath string
  | PyInt int
  | PyNone
  | PyList "pyval list"
  | PyTuple "pyval list"

fun type_name :: "pyval \<Rightarrow> string" where
  "type_name (PyStr _) = ''str''"
| "type_name (PyPath _) = ''PosixPath''"
| "type_name (PyInt _) = ''int''"
| "type_name PyNone = ''NoneType''"
| "type_name (PyList _) = ''list''"
| "type_name (PyTuple _) = ''tuple''"

subsection \<open>pathlib: the final component of a path\<close>

text \<open>
  \<^verbatim>\<open>Path(p).name\<close> for POSIX paths: the path is split at \<^verbatim>\<open>/\<close>, empty components
  and \<^verbatim>\<open>.\<close> components are dropped, and the name is the last component left (the
  empty string when none is left). \<^verbatim>\<open>Path(v)\<close> takes a string or a path object
  and raises \<^verbatim>\<open>TypeError\<close> for any other value; the wording of its message depends
  on the Python version and no property below depends on it.
\<close>

fun split_slash :: "string \<Rightarrow> string list" where
  "split_slash [] = [[]]"
| "split_slash (c # cs) =
     (if c = CHR ''/'' then [] # split_slash cs
      else (case split_slash cs of
              [] \<Rightarrow> [[c]]
            | x # xs \<Rightarrow> (c # x) # xs))"

definition path_parts :: "string \<Rightarrow> string list" where
  "path_parts p = filter (\<lambda>x. x \<noteq> [] \<and> x \<noteq> ''.'') (split_slash p)"

definition path_name :: "string \<Rightarrow> string" where
  "path_name p = (case path_parts p of [] \<Rightarrow> [] | x # xs \<Rightarrow> last (x # xs))"

definition Path :: "pyval \<Rightarrow> exn + string" where
  "Path v = (case v of
      PyStr p \<Rightarrow> Inr p
    | PyPath p \<Rightarrow> Inr p
    | _ \<Rightarrow> Inl (TypeError (''expected str, bytes or os.PathLike object, not '' @ type_name v)))"

subsection \<open>The collaborators: filesystem and parser\<close>

text \<open>
  A page is what \<^verbatim>\<open>page.extract_text()\<close> does on it: it raises, or returns
  \<^verbatim>\<open>None\<close> or a string. A document information dictionary is falsy in Python when
  it has no entry; its \<^verbatim>\<open>title\<close> and \<^verbatim>\<open>author\<close> properties are \<^verbatim>\<open>None\<close> when the
  entry is absent.
\<close>

datatype page = Page (extract_text: "exn + string option")

record DocumentInformation =
  entries :: nat
  title :: "string option"
  author :: "string option"

record pdf_reader =
  pages :: "exn + page list"
  metadata :: "exn + DocumentInformation option"

record world =
  st_size :: "string \<Rightarrow> exn + nat"
  PdfReader :: "string \<Rightarrow> exn + pdf_reader"

subsection \<open>Result data\<close>

text \<open>
  A Python \<^verbatim>\<open>dict\<close> keeps its keys in insertion order, and assigning to a key that
  is present keeps the key's place: an association list with \<open>AList.update\<close>.
  The metadata dictionary has one of two shapes: the five fields of the success path,
  or \<^verbatim>\<open>filename\<close> and \<^verbatim>\<open>error\<close>. \<^verbatim>\<open>title\<close> and \<^verbatim>\<open>author\<close> hold a string or
  \<^verbatim>\<open>None\<close>. \<^verbatim>\<open>file_size_mb\<close> is a float in the source; it is the rational it
  denotes here.
\<close>

type_synonym ('k, 'v) dict = "('k \<times> 'v) list"

datatype pdf_metadata =
    Metadata string nat rat "string option" "string option"
  | MetadataError string string

record result_entry =
  entry_text :: string
  entry_meta :: pdf_metadata

definition dict_get :: "('k, 'v) dict \<Rightarrow> 'k \<Rightarrow> 'v \<Rightarrow> 'v" where
  "dict_get d k dflt = (case map_of d k of None \<Rightarrow> dflt | Some v \<Rightarrow> v)"

subsection \<open>\<^verbatim>\<open>extract_text_from_pdf\<close>\<close>

abbreviation newline :: string where
  "newline \<equiv> [CHR 0x0A]"

text \<open>\<^verbatim>\<open>page.extract_text() or ""\<close>: a falsy result (\<^verbatim>\<open>None\<close>, the empty string) gives
  the empty string.\<close>

definition or_empty :: "string option \<Rightarrow> string" where
  "or_empty r = (case r of None \<Rightarrow> [] | Some s \<Rightarrow> (if s = [] then [] else s))"

text \<open>The loop over \<^verbatim>\<open>reader.pages\<close>, with the local \<^verbatim>\<open>text\<close> as accumulator.\<close>

fun pages_loop :: "page list \<Rightarrow> string \<Rightarrow> exn + string" where
  "pages_loop [] text = Inr text"
| "pages_loop (pg # pgs) text =
     (case extract_text pg of
        Inl e \<Rightarrow> Inl e
      | Inr r \<Rightarrow> pages_loop pgs (text @ or_empty r @ newline))"

text \<open>Each of the three handlers logs and re-raises, so an exception of the body is
  the exception of the call.\<close>

definition extract_text_from_pdf :: "world \<Rightarrow> string \<Rightarrow> exn + string" where
  "extract_text_from_pdf w pdf_path =
     (case PdfReader w pdf_path of
        Inl e \<Rightarrow> Inl e
      | Inr reader \<Rightarrow>
          (case pages reader of
             Inl e \<Rightarrow> Inl e
           | Inr pgs \<Rightarrow> pages_loop pgs []))"

subsection \<open>\<^verbatim>\<open>extract_text_from_multiple_pdfs\<close>\<close>

text \<open>
  The loop over \<^verbatim>\<open>pdf_paths\<close> with the locals \<^verbatim>\<open>results\<close> and \<^verbatim>\<open>failed_files\<close>.
  \<^verbatim>\<open>Path(pdf_path).name\<close> is evaluated outside the \<^verbatim>\<open>try\<close>, so its
  \<^verbatim>\<open>TypeError\<close> ends the loop; an exception of \<^verbatim>\<open>extract_text_from_pdf\<close> is caught
  and appended to \<^verbatim>\<open>failed_files\<close>.
\<close>

fun text_loop ::
  "world \<Rightarrow> pyval list \<Rightarrow> (string, string) dict \<Rightarrow> (string \<times> string) list
     \<Rightarrow> exn + ((string, string) dict \<times> (string \<times> string) list)" where
  "text_loop w [] results failed_files = Inr (results, failed_files)"
| "text_loop w (v # vs) results failed_files =
     (case Path v of
        Inl e \<Rightarrow> Inl e
      | Inr pdf_path \<Rightarrow>
          (let filename = path_name pdf_path in
           case extract_text_from_pdf w pdf_path of
             Inr text \<Rightarrow> text_loop w vs (AList.update filename text results) failed_files
           | Inl e \<Rightarrow> text_loop w vs results (failed_files @ [(filename, str_of e)])))"

text \<open>The function returns \<^verbatim>\<open>results\<close>; \<^verbatim>\<open>failed_files\<close> is a local that only the
  log sees, and is kept here beside the result so that it can be spoken about.\<close>

definition extract_text_from_multiple_pdfs_locals ::
  "world \<Rightarrow> pyval list \<Rightarrow> exn + ((string, string) dict \<times> (string \<times> string) list)" where
  "extract_text_from_multiple_pdfs_locals w pdf_paths = text_loop w pdf_paths [] []"

definition extract_text_from_multiple_pdfs ::
  "world \<Rightarrow> pyval list \<Rightarrow> exn + (string, string) dict" where
  "extract_text_from_multiple_pdfs w pdf_paths =
     (case extract_text_from_multiple_pdfs_locals w pdf_paths of
        Inl e \<Rightarrow> Inl e
      | Inr (results, failed_files) \<Rightarrow> Inr results)"

subsection \<open>\<^verbatim>\<open>get_pdf_metadata\<close>\<close>

text \<open>
  \<^verbatim>\<open>round(x, 2)\<close> rounds to the nearest multiple of 1/100, a tie going to the even
  multiple. The quotient \<^verbatim>\<open>st_size / (1024 * 1024)\<close> is exact in a double for every
  size below \<open>2 ^ 53\<close>.
\<close>

definition py_round2 :: "rat \<Rightarrow> rat" where
  "py_round2 x =
     (let y = x * 100; n = \<lfloor>y\<rfloor>; d = y - of_int n in
      (if d < 1 / 2 then of_int n
       else if 1 / 2 < d then of_int n + 1
       else if even n then of_int n else of_int n + 1) / 100)"

text \<open>\<^verbatim>\<open>reader.metadata.title if reader.metadata else "Unknown"\<close>, for either property.\<close>

definition info_or_unknown ::
  "(DocumentInformation \<Rightarrow> string option) \<Rightarrow> DocumentInformation option \<Rightarrow> string option" where
  "info_or_unknown field md =
     (case md of
        None \<Rightarrow> Some ''Unknown''
      | Some di \<Rightarrow> (if entries di = 0 then Some ''Unknown'' else field di))"

text \<open>The body of the \<^verbatim>\<open>try\<close>, in the order in which the source evaluates it.\<close>

definition get_pdf_metadata_body :: "world \<Rightarrow> string \<Rightarrow> exn + pdf_metadata" where
  "get_pdf_metadata_body w pdf_path =
     (case st_size w pdf_path of
        Inl e \<Rightarrow> Inl e
      | Inr nbytes \<Rightarrow>
          (let file_size_mb = of_nat nbytes / (1024 * 1024) in
           case PdfReader w pdf_path of
             Inl e \<Rightarrow> Inl e
           | Inr reader \<Rightarrow>
               (case pages reader of
                  Inl e \<Rightarrow> Inl e
                | Inr pgs \<Rightarrow>
                    (case metadata reader of
                       Inl e \<Rightarrow> Inl e
                     | Inr md \<Rightarrow>
                         Inr (Metadata (path_name pdf_path) (length pgs)
                                (py_round2 file_size_mb)
                                (info_or_unknown title md)
                                (info_or_unknown author md))))))"

text \<open>\<^verbatim>\<open>except Exception as e\<close> returns the two-field dictionary.\<close>

definition get_pdf_metadata :: "world \<Rightarrow> string \<Rightarrow> exn + pdf_metadata" where
  "get_pdf_metadata w pdf_path =
     (case get_pdf_metadata_body w pdf_path of
        Inr m \<Rightarrow> Inr m
      | Inl e \<Rightarrow> Inr (MetadataError (path_name pdf_path) (str_of e)))"

subsection \<open>\<^verbatim>\<open>extract_pdfs_with_metadata\<close>\<close>

text \<open>The second loop of the list branch, over the same \<^verbatim>\<open>pdf_input\<close>, with the
  text mapping \<^verbatim>\<open>batch\<close> of the first pass and the local \<^verbatim>\<open>results\<close>.\<close>

fun merge_loop ::
  "world \<Rightarrow> (string, string) dict \<Rightarrow> pyval list \<Rightarrow> (string, result_entry) dict
     \<Rightarrow> exn + (string, result_entry) dict" where
  "merge_loop w batch [] results = Inr results"
| "merge_loop w batch (v # vs) results =
     (case Path v of
        Inl e \<Rightarrow> Inl e
      | Inr pdf_path \<Rightarrow>
          (let filename = path_name pdf_path;
               text = dict_get batch filename []
           in case get_pdf_metadata w pdf_path of
                Inl e \<Rightarrow> Inl e
              | Inr m \<Rightarrow>
                  merge_loop w batch vs
                    (AList.update filename \<lparr>entry_text = text, entry_meta = m\<rparr> results)))"

definition extract_pdfs_with_metadata :: "world \<Rightarrow> pyval \<Rightarrow> exn + (string, result_entry) dict" where
  "extract_pdfs_with_metadata w pdf_input =
     (case pdf_input of
        PyStr p \<Rightarrow>
          (let filename = path_name p in
           case extract_text_from_pdf w p of
             Inl e \<Rightarrow> Inl e
           | Inr text \<Rightarrow>
               (case get_pdf_metadata w p of
                  Inl e \<Rightarrow> Inl e
                | Inr m \<Rightarrow> Inr (AList.update filename \<lparr>entry_text = text, entry_meta = m\<rparr> [])))
      | PyList vs \<Rightarrow>
          (case extract_text_from_multiple_pdfs w vs of
             Inl e \<Rightarrow> Inl e
           | Inr batch \<Rightarrow> merge_loop w batch vs [])
      | _ \<Rightarrow> Inl (TypeError ''Input must be a str PDF path or list of paths''))"

subsection \<open>Vocabulary of the properties\<close>


fun last_with :: "('a \<Rightarrow> bool) \<Rightarrow> 'a list \<Rightarrow> 'a option" where
  "last_with P [] = None"
| "last_with P (x # xs) =
     (case last_with P xs of
        Some y \<Rightarrow> Some y
      | None \<Rightarrow> (if P x then Some x else None))"

primrec keep_first :: "'a list \<Rightarrow> 'a list" where
  "keep_first [] = []"
| "keep_first (x # xs) = x # filter (\<lambda>y. y \<noteq> x) (keep_first xs)"

subsection \<open>An example filesystem\<close>

text \<open>
  One readable document of three pages, whose information dictionary has a title and
  no author; one file that the parser rejects; every other path is missing. The two
  files have the same name in different directories.
\<close>

definition no_such_file :: "string \<Rightarrow> exn" where
  "no_such_file p = FileNotFoundError (''[Errno 2] No such file or directory: '' @ p)"

definition doc_a :: pdf_reader where
  "doc_a = \<lparr>pages = Inr [Page (Inr (Some ''Hello'')), Page (Inr None), Page (Inr (Some ''End''))],
            metadata = Inr (Some \<lparr>entries = 2, title = Some ''Doc A'', author = None\<rparr>)\<rparr>"

definition demo_world :: world where
  "demo_world =
     \<lparr>st_size = (\<lambda>p. if p = ''docs/a.pdf'' then Inr 131072
                     else if p = ''bad/a.pdf'' then Inr 10
                     else Inl (no_such_file p)),
      PdfReader = (\<lambda>p. if p = ''docs/a.pdf'' then Inr doc_a
                       else if p = ''bad/a.pdf'' then Inl (PdfReadError ''EOF marker not found'')
                       else Inl (no_such_file p))\<rparr>"

section \<open>Auxiliary facts\<close>

subsection \<open>Lists\<close>

text \<open>Both are the library's functions read from the other end of the list.\<close>

lemma remdups_snoc: "remdups (ys @ [x]) = filter (\<lambda>y. y \<noteq> x) (remdups ys) @ [x]"
  by (induction ys) auto

lemma keep_first_remdups: "keep_first xs = rev (remdups (rev xs))"
  by (induction xs) (simp_all add: remdups_snoc rev_filter)

lemma find_snoc:
  "List.find P (ys @ [x]) =
     (case List.find P ys of Some y \<Rightarrow> Some y | None \<Rightarrow> (if P x then Some x else None))"
  by (induction ys) auto

lemma last_with_find: "last_with P xs = List.find P (rev xs)"
  by (induction xs) (simp_all add: find_snoc)

lemma set_keep_first: "set (keep_first xs) = set xs"
  by (induction xs) auto

lemma distinct_keep_first: "distinct (keep_first xs)"
  by (induction xs) auto

lemma length_keep_first: "length (keep_first xs) = card (set xs)"
  using distinct_card [OF distinct_keep_first, of xs] by (simp add: set_keep_first)

lemma last_with_None: "last_with P xs = None \<longleftrightarrow> (\<forall>x\<in>set xs. \<not> P x)"
  by (induction xs) (auto split: option.splits)

lemma last_with_Some: "last_with P xs = Some y \<Longrightarrow> y \<in> set xs \<and> P y"
  by (induction xs) (auto split: option.splits if_splits)

lemma last_with_append:
  "P y \<Longrightarrow> \<forall>v\<in>set vs. \<not> P v \<Longrightarrow> last_with P (us @ y # vs) = Some y"
proof (induction us)
  case Nil
  then have "last_with P vs = None" by (simp add: last_with_None)
  with Nil show ?case by simp
next
  case (Cons u us)
  then show ?case by simp
qed

lemma one_entry_per_key:
  "distinct (map fst r) \<Longrightarrow> k \<in> set (map fst r) \<Longrightarrow> length (filter (\<lambda>x. fst x = k) r) = 1"
proof (induction r)
  case Nil
  then show ?case by simp
next
  case (Cons x r)
  show ?case
  proof (cases "fst x = k")
    case True
    then have "k \<notin> set (map fst r)" using Cons.prems(1) by auto
    then have "filter (\<lambda>x. fst x = k) r = []" by (auto simp: filter_empty_conv)
    with True show ?thesis by simp
  next
    case False
    then show ?thesis using Cons by auto
  qed
qed

subsection \<open>The rounding of the file size\<close>

lemma py_round2_hundredths: "\<exists>n. py_round2 x = of_int n / 100"
  by (simp add: py_round2_def Let_def) (metis of_int_1 of_int_add)

lemma py_round2_close: "\<bar>py_round2 x - x\<bar> \<le> 1 / 200"
proof -
  define y where "y = x * 100"
  define n where "n = \<lfloor>y\<rfloor>"
  define d where "d = y - of_int n"
  have b: "0 \<le> d" "d < 1"
    unfolding d_def n_def by linarith+
  have x: "x = (of_int n + d) / 100" by (simp add: y_def d_def)
  have r: "py_round2 x =
      (if d < 1 / 2 then of_int n
       else if 1 / 2 < d then of_int n + 1
       else if even n then of_int n else of_int n + 1) / 100"
    by (simp add: py_round2_def Let_def y_def n_def d_def)
  show ?thesis
    unfolding r unfolding x using b by (auto simp: abs_le_iff field_simps)
qed

subsection \<open>The metadata probe\<close>

lemma get_pdf_metadata_Inr: "\<exists>m. get_pdf_metadata w p = Inr m"
  by (simp add: get_pdf_metadata_def split: sum.splits)

lemma get_pdf_metadata_body_stat:
  "st_size w p = Inl e \<Longrightarrow> get_pdf_metadata_body w p = Inl e"
  by (simp add: get_pdf_metadata_body_def)

lemma get_pdf_metadata_body_reader:
  "st_size w p = Inr n \<Longrightarrow> PdfReader w p = Inl e \<Longrightarrow> get_pdf_metadata_body w p = Inl e"
  by (simp add: get_pdf_metadata_body_def)

lemma get_pdf_metadata_success:
  assumes "st_size w p = Inr n" and "PdfReader w p = Inr reader"
    and "pages reader = Inr pgs" and "metadata reader = Inr md"
  shows "get_pdf_metadata w p =
           Inr (Metadata (path_name p) (length pgs) (py_round2 (of_nat n / 1048576))
                  (info_or_unknown title md) (info_or_unknown author md))"
  using assms by (simp add: get_pdf_metadata_def get_pdf_metadata_body_def)

subsection \<open>The loops on a list of strings\<close>

lemma pages_loop_acc:
  "map extract_text pgs = map Inr rs \<Longrightarrow>
   pages_loop pgs acc = Inr (acc @ concat (map (\<lambda>r. (case r of None \<Rightarrow> [] | Some s \<Rightarrow> s) @ newline) rs))"
  by (induction pgs arbitrary: acc rs) (auto simp: or_empty_def split: sum.splits option.splits)









lemma text_loop_strs:
  "\<exists>res' fl'. text_loop w (map PyStr ps) res fl = Inr (res', fl')
     \<and> (\<forall>k. map_of res' k =
           (case last_with (\<lambda>q. path_name q = k \<and> \<not> isl (extract_text_from_pdf w q)) ps of
              None \<Rightarrow> map_of res k
            | Some q \<Rightarrow> Some (projr (extract_text_from_pdf w q))))
     \<and> fl' = fl @ map (\<lambda>q. (path_name q, str_of (projl (extract_text_from_pdf w q))))
                    (filter (\<lambda>q. isl (extract_text_from_pdf w q)) ps)"
proof (induction ps arbitrary: res fl)
  case Nil
  show ?case by simp
next
  case (Cons p ps)
  show ?case
  proof (cases "extract_text_from_pdf w p")
    case (Inl e)
    obtain res' fl' where h: "text_loop w (map PyStr ps) res (fl @ [(path_name p, str_of e)]) = Inr (res', fl')"
      "\<forall>k. map_of res' k =
           (case last_with (\<lambda>q. path_name q = k \<and> \<not> isl (extract_text_from_pdf w q)) ps of
              None \<Rightarrow> map_of res k
            | Some q \<Rightarrow> Some (projr (extract_text_from_pdf w q)))"
      "fl' = (fl @ [(path_name p, str_of e)]) @ map (\<lambda>q. (path_name q, str_of (projl (extract_text_from_pdf w q))))
                    (filter (\<lambda>q. isl (extract_text_from_pdf w q)) ps)"
      using Cons.IH [of res "fl @ [(path_name p, str_of e)]"] by blast
    show ?thesis using Inl h by (auto simp: Path_def split: option.splits)
  next
    case (Inr t)
    obtain res' fl' where h: "text_loop w (map PyStr ps) (AList.update (path_name p) t res) fl = Inr (res', fl')"
      "\<forall>k. map_of res' k =
           (case last_with (\<lambda>q. path_name q = k \<and> \<not> isl (extract_text_from_pdf w q)) ps of
              None \<Rightarrow> map_of (AList.update (path_name p) t res) k
            | Some q \<Rightarrow> Some (projr (extract_text_from_pdf w q)))"
      "fl' = fl @ map (\<lambda>q. (path_name q, str_of (projl (extract_text_from_pdf w q))))
                    (filter (\<lambda>q. isl (extract_text_from_pdf w q)) ps)"
      using Cons.IH [of "AList.update (path_name p) t res" fl] by blast
    show ?thesis using Inr h by (auto simp: Path_def update_conv' split: option.splits)
  qed
qed

lemma text_locals_strs:
  "\<exists>res fl. extract_text_from_multiple_pdfs_locals w (map PyStr ps) = Inr (res, fl)
     \<and> (\<forall>k. map_of res k =
           (case last_with (\<lambda>q. path_name q = k \<and> \<not> isl (extract_text_from_pdf w q)) ps of
              None \<Rightarrow> None
            | Some q \<Rightarrow> Some (projr (extract_text_from_pdf w q))))
     \<and> fl = map (\<lambda>q. (path_name q, str_of (projl (extract_text_from_pdf w q))))
                    (filter (\<lambda>q. isl (extract_text_from_pdf w q)) ps)"
proof -
  obtain res fl where t: "text_loop w (map PyStr ps) [] [] = Inr (res, fl)"
    and tm: "\<forall>k. map_of res k =
           (case last_with (\<lambda>q. path_name q = k \<and> \<not> isl (extract_text_from_pdf w q)) ps of
              None \<Rightarrow> map_of ([] :: (string, string) dict) k
            | Some q \<Rightarrow> Some (projr (extract_text_from_pdf w q)))"
    and tf: "fl = [] @ map (\<lambda>q. (path_name q, str_of (projl (extract_text_from_pdf w q))))
                    (filter (\<lambda>q. isl (extract_text_from_pdf w q)) ps)"
    using text_loop_strs [of w ps "[]" "[]"] by blast
  have "\<And>k. map_of res k =
           (case last_with (\<lambda>q. path_name q = k \<and> \<not> isl (extract_text_from_pdf w q)) ps of
              None \<Rightarrow> None
            | Some q \<Rightarrow> Some (projr (extract_text_from_pdf w q)))"
    using tm by (simp split: option.splits)
  then show ?thesis using t tf by (simp add: extract_text_from_multiple_pdfs_locals_def)
qed

lemma merge_loop_strs:
  "\<exists>r. merge_loop w batch (map PyStr ps) res = Inr r
     \<and> map fst r = map fst res @ filter (\<lambda>k. k \<notin> set (map fst res)) (keep_first (map path_name ps))
     \<and> (\<forall>k. map_of r k =
           (case last_with (\<lambda>q. path_name q = k) ps of
              None \<Rightarrow> map_of res k
            | Some q \<Rightarrow> Some \<lparr>entry_text = dict_get batch k [],
                              entry_meta = projr (get_pdf_metadata w q)\<rparr>))"
proof (induction ps arbitrary: res)
  case Nil
  show ?case by simp
next
  case (Cons p ps)
  obtain m where m: "get_pdf_metadata w p = Inr m"
    using get_pdf_metadata_Inr by blast
  define res1 where "res1 = AList.update (path_name p) \<lparr>entry_text = dict_get batch (path_name p) [], entry_meta = m\<rparr> res"
  obtain r where h: "merge_loop w batch (map PyStr ps) res1 = Inr r"
    "map fst r = map fst res1 @ filter (\<lambda>k. k \<notin> set (map fst res1)) (keep_first (map path_name ps))"
    "\<forall>k. map_of r k =
           (case last_with (\<lambda>q. path_name q = k) ps of
              None \<Rightarrow> map_of res1 k
            | Some q \<Rightarrow> Some \<lparr>entry_text = dict_get batch k [],
                              entry_meta = projr (get_pdf_metadata w q)\<rparr>)"
    using Cons.IH [of res1] by blast
  have step: "merge_loop w batch (map PyStr (p # ps)) res = Inr r"
    using m h(1) by (simp add: Path_def res1_def)
  have keys: "map fst r = map fst res @ filter (\<lambda>k. k \<notin> set (map fst res)) (keep_first (map path_name (p # ps)))"
  proof (cases "path_name p \<in> set (map fst res)")
    case True
    then have "map fst res1 = map fst res" by (simp add: res1_def update_keys)
    moreover have "filter (\<lambda>k. k \<notin> set (map fst res)) (filter (\<lambda>y. y \<noteq> path_name p) (keep_first (map path_name ps)))
        = filter (\<lambda>k. k \<notin> set (map fst res)) (keep_first (map path_name ps))"
      using True by (auto intro: filter_cong)
    ultimately show ?thesis using h(2) True by simp
  next
    case False
    then have "map fst res1 = map fst res @ [path_name p]" by (simp add: res1_def update_keys)
    moreover have "filter (\<lambda>k. k \<notin> set (map fst res)) (filter (\<lambda>y. y \<noteq> path_name p) (keep_first (map path_name ps)))
        = filter (\<lambda>k. k \<notin> set (map fst res @ [path_name p])) (keep_first (map path_name ps))"
      by (auto intro: filter_cong)
    ultimately show ?thesis using h(2) False by simp
  qed
  have vals: "\<forall>k. map_of r k =
           (case last_with (\<lambda>q. path_name q = k) (p # ps) of
              None \<Rightarrow> map_of res k
            | Some q \<Rightarrow> Some \<lparr>entry_text = dict_get batch k [],
                              entry_meta = projr (get_pdf_metadata w q)\<rparr>)"
    using h(3) m by (auto simp: res1_def update_conv' split: option.splits)
  show ?case using step keys vals by blast
qed

lemma batch_result_strs:
  "\<exists>r. extract_pdfs_with_metadata w (PyList (map PyStr ps)) = Inr r
     \<and> map fst r = keep_first (map path_name ps)
     \<and> (\<forall>k. map_of r k =
           (case last_with (\<lambda>q. path_name q = k) ps of
              None \<Rightarrow> None
            | Some q \<Rightarrow>
                Some \<lparr>entry_text =
                        (case last_with (\<lambda>q. path_name q = k \<and> \<not> isl (extract_text_from_pdf w q)) ps of
                           None \<Rightarrow> []
                         | Some q' \<Rightarrow> projr (extract_text_from_pdf w q')),
                      entry_meta = projr (get_pdf_metadata w q)\<rparr>))"
proof -
  obtain batch fl where t: "text_loop w (map PyStr ps) [] [] = Inr (batch, fl)"
    and tm: "\<forall>k. map_of batch k =
           (case last_with (\<lambda>q. path_name q = k \<and> \<not> isl (extract_text_from_pdf w q)) ps of
              None \<Rightarrow> map_of ([] :: (string, string) dict) k
            | Some q \<Rightarrow> Some (projr (extract_text_from_pdf w q)))"
    using text_loop_strs [of w ps "[]" "[]"] by blast
  obtain r where m: "merge_loop w batch (map PyStr ps) [] = Inr r"
    and mk: "map fst r = map fst ([] :: (string, result_entry) dict)
          @ filter (\<lambda>k. k \<notin> set (map fst ([] :: (string, result_entry) dict))) (keep_first (map path_name ps))"
    and mv: "\<forall>k. map_of r k =
           (case last_with (\<lambda>q. path_name q = k) ps of
              None \<Rightarrow> map_of ([] :: (string, result_entry) dict) k
            | Some q \<Rightarrow> Some \<lparr>entry_text = dict_get batch k [],
                              entry_meta = projr (get_pdf_metadata w q)\<rparr>)"
    using merge_loop_strs [of w batch ps "[]"] by blast
  have run: "extract_pdfs_with_metadata w (PyList (map PyStr ps)) = Inr r"
    using t m by (simp add: extract_pdfs_with_metadata_def extract_text_from_multiple_pdfs_def
        extract_text_from_multiple_pdfs_locals_def)
  have get: "\<And>k. dict_get batch k [] =
      (case last_with (\<lambda>q. path_name q = k \<and> \<not> isl (extract_text_from_pdf w q)) ps of
         None \<Rightarrow> []
       | Some q' \<Rightarrow> projr (extract_text_from_pdf w q'))"
    using tm by (simp add: dict_get_def split: option.splits)
  have vals: "\<And>k. map_of r k =
           (case last_with (\<lambda>q. path_name q = k) ps of
              None \<Rightarrow> None
            | Some q \<Rightarrow>
                Some \<lparr>entry_text =
                        (case last_with (\<lambda>q. path_name q = k \<and> \<not> isl (extract_text_from_pdf w q)) ps of
                           None \<Rightarrow> []
                         | Some q' \<Rightarrow> projr (extract_text_from_pdf w q')),
                      entry_meta = projr (get_pdf_metadata w q)\<rparr>)"
    using mv get by (simp split: option.splits)
  have keys: "map fst r = keep_first (map path_name ps)"
    using mk by simp
  show ?thesis using run keys vals by blast
qed

subsection \<open>The functions on the example filesystem\<close>

lemma path_name_demo:
  "path_name ''docs/a.pdf'' = ''a.pdf''" "path_name ''bad/a.pdf'' = ''a.pdf''"
  "path_name ''old/a.pdf'' = ''a.pdf''" "path_name ''b.pdf'' = ''b.pdf''"
  by (simp_all add: path_name_def path_parts_def)

lemma round_demo: "py_round2 (1 / 8) = 3 / 25"
  by code_simp

lemma extract_text_demo:
  "extract_text_from_pdf demo_world ''docs/a.pdf'' = Inr (''Hello'' @ newline @ newline @ ''End'' @ newline)"
  "extract_text_from_pdf demo_world ''bad/a.pdf'' = Inl (PdfReadError ''EOF marker not found'')"
  "extract_text_from_pdf demo_world ''old/a.pdf'' = Inl (no_such_file ''old/a.pdf'')"
  "extract_text_from_pdf demo_world ''b.pdf'' = Inl (no_such_file ''b.pdf'')"
  by (simp_all add: extract_text_from_pdf_def demo_world_def doc_a_def or_empty_def)

lemma get_pdf_metadata_demo:
  "get_pdf_metadata demo_world ''docs/a.pdf'' = Inr (Metadata ''a.pdf'' 3 (3 / 25) (Some ''Doc A'') None)"
  "get_pdf_metadata demo_world ''bad/a.pdf'' = Inr (MetadataError ''a.pdf'' ''EOF marker not found'')"
  "get_pdf_metadata demo_world ''old/a.pdf'' = Inr (MetadataError ''a.pdf'' (str_of (no_such_file ''old/a.pdf'')))"
  "get_pdf_metadata demo_world ''b.pdf'' = Inr (MetadataError ''b.pdf'' (str_of (no_such_file ''b.pdf'')))"
  by (simp_all add: get_pdf_metadata_def get_pdf_metadata_body_def demo_world_def doc_a_def
      info_or_unknown_def path_name_demo round_demo)

lemma batch_demo1:
  "extract_pdfs_with_metadata demo_world (PyList [PyStr ''docs/a.pdf'', PyStr ''old/a.pdf''])
     = Inr [(''a.pdf'', \<lparr>entry_text = ''Hello'' @ newline @ newline @ ''End'' @ newline,
                        entry_meta = MetadataError ''a.pdf'' (str_of (no_such_file ''old/a.pdf''))\<rparr>)]"
  by (simp add: extract_pdfs_with_metadata_def extract_text_from_multiple_pdfs_def
      extract_text_from_multiple_pdfs_locals_def Path_def path_name_demo extract_text_demo
      get_pdf_metadata_demo dict_get_def Let_def)

lemma batch_demo2:
  "extract_pdfs_with_metadata demo_world (PyList [PyStr ''docs/a.pdf'', PyStr ''bad/a.pdf''])
     = Inr [(''a.pdf'', \<lparr>entry_text = ''Hello'' @ newline @ newline @ ''End'' @ newline,
                        entry_meta = MetadataError ''a.pdf'' ''EOF marker not found''\<rparr>)]"
  "extract_pdfs_with_metadata demo_world (PyList [PyStr ''bad/a.pdf''])
     = Inr [(''a.pdf'', \<lparr>entry_text = [],
                        entry_meta = MetadataError ''a.pdf'' ''EOF marker not found''\<rparr>)]"
  "extract_pdfs_with_metadata demo_world (PyList [PyStr ''b.pdf''])
     = Inr [(''b.pdf'', \<lparr>entry_text = [],
                        entry_meta = MetadataError ''b.pdf'' (str_of (no_such_file ''b.pdf''))\<rparr>)]"
  "extract_pdfs_with_metadata demo_world (PyList [PyStr ''docs/a.pdf'', PyStr ''b.pdf''])
     = Inr [(''a.pdf'', \<lparr>entry_text = ''Hello'' @ newline @ newline @ ''End'' @ newline,
                        entry_meta = Metadata ''a.pdf'' 3 (3 / 25) (Some ''Doc A'') None\<rparr>),
            (''b.pdf'', \<lparr>entry_text = [],
                        entry_meta = MetadataError ''b.pdf'' (str_of (no_such_file ''b.pdf''))\<rparr>)]"
  by (simp_all add: extract_pdfs_with_metadata_def extract_text_from_multiple_pdfs_def
      extract_text_from_multiple_pdfs_locals_def Path_def path_name_demo extract_text_demo
      get_pdf_metadata_demo dict_get_def Let_def)

lemma locals_demo:
  "extract_text_from_multiple_pdfs_locals demo_world [PyStr ''docs/a.pdf'', PyStr ''b.pdf'']
     = Inr ([(''a.pdf'', ''Hello'' @ newline @ newline @ ''End'' @ newline)],
            [(''b.pdf'', str_of (no_such_file ''b.pdf''))])"
  by (simp add: extract_text_from_multiple_pdfs_locals_def Path_def path_name_demo
      extract_text_demo Let_def)

section \<open>Properties\<close>

subsection \<open>An identifier whose text extraction failed\<close>

text \<open>
  C1, as stated, fails when a name is shared. \<^verbatim>\<open>old/a.pdf\<close> is missing, so its text
  extraction fails; in the list \<^verbatim>\<open>["docs/a.pdf", "old/a.pdf"]\<close> the entry under its
  name \<^verbatim>\<open>a.pdf\<close> carries the text of \<^verbatim>\<open>docs/a.pdf\<close>, not the empty string.
\<close>

theorem failed_text_shares_entry_counterexample:
  "extract_text_from_pdf demo_world ''old/a.pdf'' = Inl (no_such_file ''old/a.pdf'')
   \<and> path_name ''old/a.pdf'' = ''a.pdf''
   \<and> extract_pdfs_with_metadata demo_world (PyList [PyStr ''docs/a.pdf'', PyStr ''old/a.pdf''])
       = Inr [(''a.pdf'', \<lparr>entry_text = ''Hello'' @ newline @ newline @ ''End'' @ newline,
                          entry_meta = MetadataError ''a.pdf'' (str_of (no_such_file ''old/a.pdf''))\<rparr>)]
   \<and> ''Hello'' @ newline @ newline @ ''End'' @ newline \<noteq> []"
  using extract_text_demo(3) path_name_demo(3) batch_demo1 by simp

text \<open>
  C1, amended. For every list of identifiers, an identifier whose text extraction
  failed has an entry under its name in the result. When no other identifier of the
  list has that name, the entry's text is the empty string and its metadata is what
  \<^verbatim>\<open>get_pdf_metadata\<close> returns for that identifier: the two-field error record when
  the body of the probe raised, the full record otherwise; when the size lookup
  fails, as for a missing file, it is the error record with the message of that
  failure.
\<close>

theorem failed_text_still_has_entry:
  assumes "p \<in> set ps" and "extract_text_from_pdf w p = Inl e"
  shows "\<exists>r x. extract_pdfs_with_metadata w (PyList (map PyStr ps)) = Inr r
           \<and> map_of r (path_name p) = Some x
           \<and> ((\<forall>q\<in>set ps. path_name q = path_name p \<longrightarrow> q = p) \<longrightarrow>
                entry_text x = []
                \<and> get_pdf_metadata w p = Inr (entry_meta x)
                \<and> (case get_pdf_metadata_body w p of
                     Inl e' \<Rightarrow> entry_meta x = MetadataError (path_name p) (str_of e')
                   | Inr m \<Rightarrow> entry_meta x = m)
                \<and> (\<forall>e'. st_size w p = Inl e' \<longrightarrow>
                      entry_meta x = MetadataError (path_name p) (str_of e')))"
proof -
  let ?k = "path_name p"
  obtain r where run: "extract_pdfs_with_metadata w (PyList (map PyStr ps)) = Inr r"
    and vals: "\<forall>k. map_of r k =
           (case last_with (\<lambda>q. path_name q = k) ps of
              None \<Rightarrow> None
            | Some q \<Rightarrow>
                Some \<lparr>entry_text =
                        (case last_with (\<lambda>q. path_name q = k \<and> \<not> isl (extract_text_from_pdf w q)) ps of
                           None \<Rightarrow> []
                         | Some q' \<Rightarrow> projr (extract_text_from_pdf w q')),
                      entry_meta = projr (get_pdf_metadata w q)\<rparr>)"
    using batch_result_strs [of w ps] by blast
  have "last_with (\<lambda>q. path_name q = ?k) ps \<noteq> None"
    using assms(1) by (auto simp: last_with_None)
  then obtain q where q: "last_with (\<lambda>q. path_name q = ?k) ps = Some q" by blast
  then have qin: "q \<in> set ps" "path_name q = ?k"
    using last_with_Some [OF q] by simp_all
  define x where "x = \<lparr>entry_text =
                        (case last_with (\<lambda>q. path_name q = ?k \<and> \<not> isl (extract_text_from_pdf w q)) ps of
                           None \<Rightarrow> []
                         | Some q' \<Rightarrow> projr (extract_text_from_pdf w q')),
                      entry_meta = projr (get_pdf_metadata w q)\<rparr>"
  have x: "map_of r ?k = Some x"
    using vals q by (simp add: x_def)
  have uniq: "entry_text x = []
                \<and> get_pdf_metadata w p = Inr (entry_meta x)
                \<and> (case get_pdf_metadata_body w p of
                     Inl e' \<Rightarrow> entry_meta x = MetadataError (path_name p) (str_of e')
                   | Inr m \<Rightarrow> entry_meta x = m)
                \<and> (\<forall>e'. st_size w p = Inl e' \<longrightarrow>
                      entry_meta x = MetadataError (path_name p) (str_of e'))"
    if u: "\<forall>q\<in>set ps. path_name q = path_name p \<longrightarrow> q = p"
  proof -
    have qp: "q = p" using u qin by blast
    have "\<forall>q\<in>set ps. \<not> (path_name q = ?k \<and> \<not> isl (extract_text_from_pdf w q))"
      using u assms(2) by auto
    then have "last_with (\<lambda>q. path_name q = ?k \<and> \<not> isl (extract_text_from_pdf w q)) ps = None"
      by (simp add: last_with_None)
    then have t: "entry_text x = []" by (simp add: x_def)
    obtain m where m: "get_pdf_metadata w p = Inr m" using get_pdf_metadata_Inr by blast
    then have em: "entry_meta x = m" by (simp add: x_def qp)
    have c: "(case get_pdf_metadata_body w p of
                     Inl e' \<Rightarrow> m = MetadataError (path_name p) (str_of e')
                   | Inr m' \<Rightarrow> m = m')"
      using m by (auto simp: get_pdf_metadata_def split: sum.splits)
    have s: "\<forall>e'. st_size w p = Inl e' \<longrightarrow> m = MetadataError (path_name p) (str_of e')"
      using c by (auto dest: get_pdf_metadata_body_stat)
    show ?thesis using t m c s unfolding em by simp
  qed
  show ?thesis using run x uniq by blast
qed

text \<open>
  The theorem of C1 at the list \<^verbatim>\<open>["docs/a.pdf", "b.pdf"]\<close>, where \<^verbatim>\<open>b.pdf\<close> is
  missing.
\<close>

theorem failed_text_still_has_entry_witness:
  "''b.pdf'' \<in> set [''docs/a.pdf'', ''b.pdf'']
   \<and> extract_text_from_pdf demo_world ''b.pdf'' = Inl (no_such_file ''b.pdf'')
   \<and> path_name ''docs/a.pdf'' \<noteq> path_name ''b.pdf''
   \<and> st_size demo_world ''b.pdf'' = Inl (no_such_file ''b.pdf'')
   \<and> (\<exists>r x. extract_pdfs_with_metadata demo_world (PyList (map PyStr [''docs/a.pdf'', ''b.pdf''])) = Inr r
         \<and> map_of r (path_name ''b.pdf'') = Some x
         \<and> entry_text x = []
         \<and> entry_meta x = MetadataError (path_name ''b.pdf'') (str_of (no_such_file ''b.pdf'')))"
proof -
  have h0: "path_name ''docs/a.pdf'' \<noteq> path_name ''b.pdf''"
    by (simp add: path_name_demo)
  have h1: "''b.pdf'' \<in> set [''docs/a.pdf'', ''b.pdf'']" by simp
  have h2: "extract_text_from_pdf demo_world ''b.pdf'' = Inl (no_such_file ''b.pdf'')"
    by (rule extract_text_demo(4))
  have h3: "\<forall>q\<in>set [''docs/a.pdf'', ''b.pdf'']. path_name q = path_name ''b.pdf'' \<longrightarrow> q = ''b.pdf''"
    by (simp add: path_name_demo)
  have h4: "st_size demo_world ''b.pdf'' = Inl (no_such_file ''b.pdf'')"
    by (simp add: demo_world_def)
  show ?thesis
    using h0 h1 h2 h3 h4 failed_text_still_has_entry [OF h1 h2] by blast
qed

subsection \<open>One entry for every identifier\<close>

text \<open>
  C2, as stated, fails: text extraction fails for the missing \<^verbatim>\<open>b.pdf\<close>, and the
  result of \<^verbatim>\<open>extract_pdfs_with_metadata\<close> on \<^verbatim>\<open>["b.pdf"]\<close> has an entry for it.
\<close>

theorem failed_identifier_has_entry_counterexample:
  "extract_text_from_pdf demo_world ''b.pdf'' = Inl (no_such_file ''b.pdf'')
   \<and> extract_pdfs_with_metadata demo_world (PyList [PyStr ''b.pdf''])
       = Inr [(''b.pdf'', \<lparr>entry_text = [],
                          entry_meta = MetadataError ''b.pdf'' (str_of (no_such_file ''b.pdf''))\<rparr>)]"
  using extract_text_demo(4) batch_demo2(3) by simp

text \<open>
  C2, amended. For every list of identifiers, every identifier has exactly one entry
  in the result, under its name, also when its text extraction fails. The failure is
  then recorded in \<^verbatim>\<open>failed_files\<close>, and it is the text mapping of
  \<^verbatim>\<open>extract_text_from_multiple_pdfs\<close> that has no entry under that name, when text
  extraction fails for every identifier of the list with that name.
\<close>

theorem every_identifier_one_entry:
  assumes "p \<in> set ps"
  shows "\<exists>r res fl. extract_pdfs_with_metadata w (PyList (map PyStr ps)) = Inr r
           \<and> length (filter (\<lambda>x. fst x = path_name p) r) = 1
           \<and> extract_text_from_multiple_pdfs_locals w (map PyStr ps) = Inr (res, fl)
           \<and> (\<forall>e. extract_text_from_pdf w p = Inl e \<longrightarrow>
                 (path_name p, str_of e) \<in> set fl
                 \<and> ((\<forall>q\<in>set ps. path_name q = path_name p \<longrightarrow> isl (extract_text_from_pdf w q))
                      \<longrightarrow> map_of res (path_name p) = None))"
proof -
  obtain r where run: "extract_pdfs_with_metadata w (PyList (map PyStr ps)) = Inr r"
    and keys: "map fst r = keep_first (map path_name ps)"
    using batch_result_strs [of w ps] by blast
  have "distinct (map fst r)" "path_name p \<in> set (map fst r)"
    using keys assms by (simp_all add: distinct_keep_first set_keep_first)
  then have one: "length (filter (\<lambda>x. fst x = path_name p) r) = 1"
    by (rule one_entry_per_key)
  obtain res fl where loc: "extract_text_from_multiple_pdfs_locals w (map PyStr ps) = Inr (res, fl)"
    and tm: "\<forall>k. map_of res k =
           (case last_with (\<lambda>q. path_name q = k \<and> \<not> isl (extract_text_from_pdf w q)) ps of
              None \<Rightarrow> None
            | Some q \<Rightarrow> Some (projr (extract_text_from_pdf w q)))"
    and tf: "fl = map (\<lambda>q. (path_name q, str_of (projl (extract_text_from_pdf w q))))
                    (filter (\<lambda>q. isl (extract_text_from_pdf w q)) ps)"
    using text_locals_strs [of w ps] by blast
  have led: "(path_name p, str_of e) \<in> set fl" if "extract_text_from_pdf w p = Inl e" for e
  proof -
    have "p \<in> set (filter (\<lambda>q. isl (extract_text_from_pdf w q)) ps)"
      using that assms by simp
    then have "(path_name p, str_of (projl (extract_text_from_pdf w p))) \<in> set fl"
      unfolding tf by (simp add: image_iff) blast
    then show ?thesis using that by simp
  qed
  have none: "map_of res (path_name p) = None"
    if "\<forall>q\<in>set ps. path_name q = path_name p \<longrightarrow> isl (extract_text_from_pdf w q)"
  proof -
    have "last_with (\<lambda>q. path_name q = path_name p \<and> \<not> isl (extract_text_from_pdf w q)) ps = None"
      using that by (auto simp: last_with_None)
    then show ?thesis using tm by simp
  qed
  show ?thesis using run one loc led none by blast
qed

text \<open>
  The theorem of C2 at the list \<^verbatim>\<open>["docs/a.pdf", "b.pdf"]\<close> and the missing
  \<^verbatim>\<open>b.pdf\<close>.
\<close>

theorem every_identifier_one_entry_witness:
  "''b.pdf'' \<in> set [''docs/a.pdf'', ''b.pdf'']
   \<and> extract_text_from_pdf demo_world ''b.pdf'' = Inl (no_such_file ''b.pdf'')
   \<and> path_name ''docs/a.pdf'' \<noteq> path_name ''b.pdf''
   \<and> (\<exists>r res fl. extract_pdfs_with_metadata demo_world (PyList (map PyStr [''docs/a.pdf'', ''b.pdf''])) = Inr r
         \<and> length (filter (\<lambda>x. fst x = path_name ''b.pdf'') r) = 1
         \<and> extract_text_from_multiple_pdfs_locals demo_world (map PyStr [''docs/a.pdf'', ''b.pdf'']) = Inr (res, fl)
         \<and> (path_name ''b.pdf'', str_of (no_such_file ''b.pdf'')) \<in> set fl
         \<and> map_of res (path_name ''b.pdf'') = None)"
proof -
  have h1: "''b.pdf'' \<in> set [''docs/a.pdf'', ''b.pdf'']" by simp
  have h2: "extract_text_from_pdf demo_world ''b.pdf'' = Inl (no_such_file ''b.pdf'')"
    by (rule extract_text_demo(4))
  have h3: "\<forall>q\<in>set [''docs/a.pdf'', ''b.pdf'']. path_name q = path_name ''b.pdf''
          \<longrightarrow> isl (extract_text_from_pdf demo_world q)"
    by (simp add: path_name_demo extract_text_demo)
  have h0: "path_name ''docs/a.pdf'' \<noteq> path_name ''b.pdf''"
    by (simp add: path_name_demo)
  show ?thesis
    using h0 h1 h2 h3 every_identifier_one_entry [OF h1, of demo_world] by blast
qed

subsection \<open>The probe never raises\<close>

text \<open>
  C3. For every identifier \<^verbatim>\<open>get_pdf_metadata\<close> returns a record and raises nothing.
  Whenever its body raises, in particular when the size lookup fails (a path with no
  file) or the parser rejects the file, the record is the error record that holds
  the name of the identifier and the message of the exception.
\<close>

theorem get_pdf_metadata_never_raises:
  "\<exists>m. get_pdf_metadata w p = Inr m
     \<and> (\<forall>e. get_pdf_metadata_body w p = Inl e \<longrightarrow> m = MetadataError (path_name p) (str_of e))
     \<and> (\<forall>e. st_size w p = Inl e \<or> ((\<exists>n. st_size w p = Inr n) \<and> PdfReader w p = Inl e)
           \<longrightarrow> m = MetadataError (path_name p) (str_of e))"
  by (auto simp: get_pdf_metadata_def get_pdf_metadata_body_def split: sum.splits)

text \<open>
  The theorem of C3 at a missing file and at a file that the parser rejects.
\<close>

theorem get_pdf_metadata_never_raises_witness:
  "st_size demo_world ''b.pdf'' = Inl (no_such_file ''b.pdf'')
   \<and> get_pdf_metadata_body demo_world ''b.pdf'' = Inl (no_such_file ''b.pdf'')
   \<and> get_pdf_metadata demo_world ''b.pdf''
       = Inr (MetadataError (path_name ''b.pdf'') (str_of (no_such_file ''b.pdf'')))
   \<and> st_size demo_world ''bad/a.pdf'' = Inr 10
   \<and> PdfReader demo_world ''bad/a.pdf'' = Inl (PdfReadError ''EOF marker not found'')
   \<and> get_pdf_metadata demo_world ''bad/a.pdf''
       = Inr (MetadataError (path_name ''bad/a.pdf'') (str_of (PdfReadError ''EOF marker not found'')))"
proof -
  have h1: "st_size demo_world ''b.pdf'' = Inl (no_such_file ''b.pdf'')"
    by (simp add: demo_world_def)
  have h2: "get_pdf_metadata_body demo_world ''b.pdf'' = Inl (no_such_file ''b.pdf'')"
    using h1 by (rule get_pdf_metadata_body_stat)
  have h3: "st_size demo_world ''bad/a.pdf'' = Inr 10"
    by (simp add: demo_world_def)
  have h4: "PdfReader demo_world ''bad/a.pdf'' = Inl (PdfReadError ''EOF marker not found'')"
    by (simp add: demo_world_def)
  have a: "get_pdf_metadata demo_world ''b.pdf''
       = Inr (MetadataError (path_name ''b.pdf'') (str_of (no_such_file ''b.pdf'')))"
    using get_pdf_metadata_never_raises [of demo_world "''b.pdf''"] h2 by blast
  have b: "get_pdf_metadata demo_world ''bad/a.pdf''
       = Inr (MetadataError (path_name ''bad/a.pdf'') (str_of (PdfReadError ''EOF marker not found'')))"
    using get_pdf_metadata_never_raises [of demo_world "''bad/a.pdf''"] h3 h4 by blast
  show ?thesis using h1 h2 h3 h4 a b by blast
qed

subsection \<open>Dispatch on the type of the input\<close>




subsection \<open>The text of a document\<close>

text \<open>
  C5. When the parser opens the document and every page yields a text or none, the
  result of \<^verbatim>\<open>extract_text_from_pdf\<close> is the texts of the pages in file order, each
  followed by a newline, the last one too, a page without text counting as the empty
  string; a document without pages gives the empty string.
\<close>

theorem extract_text_concatenates_pages:
  assumes "PdfReader w p = Inr reader" and "pages reader = Inr pgs"
    and "map extract_text pgs = map Inr rs"
  shows "extract_text_from_pdf w p =
           Inr (concat (map (\<lambda>r. (case r of None \<Rightarrow> [] | Some s \<Rightarrow> s) @ newline) rs))
         \<and> (pgs = [] \<longrightarrow> extract_text_from_pdf w p = Inr [])"
  using assms pages_loop_acc [of pgs rs "[]"]
  by (auto simp: extract_text_from_pdf_def)

text \<open>
  The theorem of C5 at the three pages of \<^verbatim>\<open>docs/a.pdf\<close>, the second without text.
\<close>

theorem extract_text_concatenates_pages_witness:
  "PdfReader demo_world ''docs/a.pdf'' = Inr doc_a
   \<and> pages doc_a = Inr [Page (Inr (Some ''Hello'')), Page (Inr None), Page (Inr (Some ''End''))]
   \<and> extract_text_from_pdf demo_world ''docs/a.pdf'' = Inr (''Hello'' @ newline @ newline @ ''End'' @ newline)"
proof -
  have h1: "PdfReader demo_world ''docs/a.pdf'' = Inr doc_a"
    by (simp add: demo_world_def)
  have h2: "pages doc_a = Inr [Page (Inr (Some ''Hello'')), Page (Inr None), Page (Inr (Some ''End''))]"
    by (simp add: doc_a_def)
  have h3: "map extract_text [Page (Inr (Some ''Hello'')), Page (Inr None), Page (Inr (Some ''End''))]
      = map Inr [Some ''Hello'', None, Some ''End'']"
    by simp
  show ?thesis
    using h1 h2 extract_text_concatenates_pages [OF h1 h2 h3] by simp
qed

subsection \<open>The fields of the metadata record\<close>

text \<open>
  C6 at \<^verbatim>\<open>docs/a.pdf\<close>, whose information dictionary has a title and no author: the
  probe succeeds, and the \<^verbatim>\<open>author\<close> of the record is \<^verbatim>\<open>None\<close>, not
  \<^verbatim>\<open>"Unknown"\<close>. The size of 131072 bytes is 0.125 MB and is rounded to 0.12.
\<close>

theorem missing_author_is_None:
  "metadata doc_a = Inr (Some \<lparr>entries = 2, title = Some ''Doc A'', author = None\<rparr>)
   \<and> PdfReader demo_world ''docs/a.pdf'' = Inr doc_a
   \<and> get_pdf_metadata demo_world ''docs/a.pdf''
       = Inr (Metadata ''a.pdf'' 3 (3 / 25) (Some ''Doc A'') None)"
  using get_pdf_metadata_demo(1) by (simp add: demo_world_def doc_a_def)

subsection \<open>The number of entries\<close>

text \<open>
  C7. For every list of identifiers the result has as many entries as there are
  distinct names among the identifiers; two identifiers with the same name give one
  entry.
\<close>

theorem result_size_is_distinct_basenames:
  "(\<exists>r. extract_pdfs_with_metadata w (PyList (map PyStr ps)) = Inr r
        \<and> length r = card (path_name ` set ps))
   \<and> (path_name p = path_name q \<longrightarrow>
        (\<exists>r. extract_pdfs_with_metadata w (PyList [PyStr p, PyStr q]) = Inr r \<and> length r = 1))"
proof -
  have size: "\<exists>r. extract_pdfs_with_metadata w (PyList (map PyStr ps)) = Inr r
        \<and> length r = card (path_name ` set ps)" for ps
  proof -
    obtain r where run: "extract_pdfs_with_metadata w (PyList (map PyStr ps)) = Inr r"
      and keys: "map fst r = keep_first (map path_name ps)"
      using batch_result_strs [of w ps] by blast
    have "length r = length (map fst r)" by simp
    also have "\<dots> = card (path_name ` set ps)"
      unfolding keys by (simp add: length_keep_first)
    finally show ?thesis using run by blast
  qed
  have two: "\<exists>r. extract_pdfs_with_metadata w (PyList [PyStr p, PyStr q]) = Inr r \<and> length r = 1"
    if "path_name p = path_name q"
    using size [of "[p, q]"] that by simp
  show ?thesis using size two by blast
qed

text \<open>
  The theorem of C7 at two files named \<^verbatim>\<open>a.pdf\<close> in different directories.
\<close>

theorem result_size_is_distinct_basenames_witness:
  "path_name ''docs/a.pdf'' = path_name ''bad/a.pdf''
   \<and> (\<exists>r. extract_pdfs_with_metadata demo_world (PyList [PyStr ''docs/a.pdf'', PyStr ''bad/a.pdf'']) = Inr r
         \<and> length r = 1)"
proof -
  have h: "path_name ''docs/a.pdf'' = path_name ''bad/a.pdf''"
    by (simp add: path_name_demo)
  show ?thesis
    using h result_size_is_distinct_basenames [of demo_world "[]" "''docs/a.pdf''" "''bad/a.pdf''"]
    by blast
qed

subsection \<open>A single identifier and the list that holds only it\<close>

text \<open>
  C8. When text extraction succeeds for an identifier, the result for the identifier
  given as a string is the mapping with one entry, from its name to the text and the
  metadata, and the result for the list that holds only this identifier is the same
  mapping.
\<close>

theorem single_equals_one_element_batch:
  assumes "extract_text_from_pdf w p = Inr t"
  shows "\<exists>m. get_pdf_metadata w p = Inr m
           \<and> extract_pdfs_with_metadata w (PyStr p)
               = Inr [(path_name p, \<lparr>entry_text = t, entry_meta = m\<rparr>)]
           \<and> extract_pdfs_with_metadata w (PyList [PyStr p])
               = Inr [(path_name p, \<lparr>entry_text = t, entry_meta = m\<rparr>)]"
proof -
  obtain m where m: "get_pdf_metadata w p = Inr m" using get_pdf_metadata_Inr by blast
  have "extract_pdfs_with_metadata w (PyStr p) = Inr [(path_name p, \<lparr>entry_text = t, entry_meta = m\<rparr>)]"
    using assms m by (simp add: extract_pdfs_with_metadata_def)
  moreover have "extract_pdfs_with_metadata w (PyList [PyStr p])
               = Inr [(path_name p, \<lparr>entry_text = t, entry_meta = m\<rparr>)]"
    using assms m
    by (simp add: extract_pdfs_with_metadata_def extract_text_from_multiple_pdfs_def
        extract_text_from_multiple_pdfs_locals_def Path_def dict_get_def)
  ultimately show ?thesis using m by blast
qed

text \<open>
  The theorem of C8 at \<^verbatim>\<open>docs/a.pdf\<close>.
\<close>

theorem single_equals_one_element_batch_witness:
  "extract_text_from_pdf demo_world ''docs/a.pdf'' = Inr (''Hello'' @ newline @ newline @ ''End'' @ newline)
   \<and> extract_pdfs_with_metadata demo_world (PyStr ''docs/a.pdf'')
       = extract_pdfs_with_metadata demo_world (PyList [PyStr ''docs/a.pdf''])
   \<and> (\<exists>m. extract_pdfs_with_metadata demo_world (PyStr ''docs/a.pdf'')
       = Inr [(path_name ''docs/a.pdf'', \<lparr>entry_text = ''Hello'' @ newline @ newline @ ''End'' @ newline, entry_meta = m\<rparr>)])"
proof -
  have h: "extract_text_from_pdf demo_world ''docs/a.pdf'' = Inr (''Hello'' @ newline @ newline @ ''End'' @ newline)"
    by (rule extract_text_demo(1))
  show ?thesis
    using h single_equals_one_element_batch [OF h] by auto
qed

subsection \<open>Identifiers that share a name\<close>

text \<open>
  C9, as stated, fails for the text. In \<^verbatim>\<open>["docs/a.pdf", "bad/a.pdf"]\<close> the last
  identifier named \<^verbatim>\<open>a.pdf\<close> is \<^verbatim>\<open>bad/a.pdf\<close>, for which text extraction fails
  and which alone gives the empty text; the entry of the list holds the text of
  \<^verbatim>\<open>docs/a.pdf\<close>.
\<close>

theorem last_identifier_text_counterexample:
  "path_name ''docs/a.pdf'' = path_name ''bad/a.pdf''
   \<and> extract_pdfs_with_metadata demo_world (PyList [PyStr ''docs/a.pdf'', PyStr ''bad/a.pdf''])
     = Inr [(''a.pdf'', \<lparr>entry_text = ''Hello'' @ newline @ newline @ ''End'' @ newline,
                        entry_meta = MetadataError ''a.pdf'' ''EOF marker not found''\<rparr>)]
   \<and> extract_pdfs_with_metadata demo_world (PyList [PyStr ''bad/a.pdf''])
     = Inr [(''a.pdf'', \<lparr>entry_text = [],
                        entry_meta = MetadataError ''a.pdf'' ''EOF marker not found''\<rparr>)]
   \<and> ''Hello'' @ newline @ newline @ ''End'' @ newline \<noteq> []"
  using batch_demo2(1) batch_demo2(2) by (simp add: path_name_demo)

text \<open>
  C9, amended. When two or more identifiers of the list share a name, the entry under
  that name holds the metadata of the last of them in input order, and the text of
  the last of them whose text extraction succeeded (the empty string when none
  succeeded); the keys of the result are the names in the order of their first
  occurrences.
\<close>

theorem duplicate_basename_entry:
  assumes "2 \<le> length (filter (\<lambda>q. path_name q = k) ps)"
  shows "\<exists>r p m. extract_pdfs_with_metadata w (PyList (map PyStr ps)) = Inr r
           \<and> map fst r = keep_first (map path_name ps)
           \<and> last_with (\<lambda>q. path_name q = k) ps = Some p
           \<and> get_pdf_metadata w p = Inr m
           \<and> map_of r k =
               Some \<lparr>entry_text =
                       (case last_with (\<lambda>q. path_name q = k \<and> \<not> isl (extract_text_from_pdf w q)) ps of
                          None \<Rightarrow> []
                        | Some q \<Rightarrow> projr (extract_text_from_pdf w q)),
                     entry_meta = m\<rparr>"
proof -
  obtain r where run: "extract_pdfs_with_metadata w (PyList (map PyStr ps)) = Inr r"
    and keys: "map fst r = keep_first (map path_name ps)"
    and vals: "\<forall>k. map_of r k =
           (case last_with (\<lambda>q. path_name q = k) ps of
              None \<Rightarrow> None
            | Some q \<Rightarrow>
                Some \<lparr>entry_text =
                        (case last_with (\<lambda>q. path_name q = k \<and> \<not> isl (extract_text_from_pdf w q)) ps of
                           None \<Rightarrow> []
                         | Some q' \<Rightarrow> projr (extract_text_from_pdf w q')),
                      entry_meta = projr (get_pdf_metadata w q)\<rparr>)"
    using batch_result_strs [of w ps] by blast
  have "filter (\<lambda>q. path_name q = k) ps \<noteq> []"
    using assms by auto
  then have "last_with (\<lambda>q. path_name q = k) ps \<noteq> None"
    by (simp add: last_with_None filter_empty_conv)
  then obtain p where p: "last_with (\<lambda>q. path_name q = k) ps = Some p" by blast
  obtain m where m: "get_pdf_metadata w p = Inr m" using get_pdf_metadata_Inr by blast
  have "map_of r k =
               Some \<lparr>entry_text =
                       (case last_with (\<lambda>q. path_name q = k \<and> \<not> isl (extract_text_from_pdf w q)) ps of
                          None \<Rightarrow> []
                        | Some q \<Rightarrow> projr (extract_text_from_pdf w q)),
                     entry_meta = m\<rparr>"
    using vals p m by simp
  then show ?thesis using run keys p m by blast
qed

text \<open>
  The theorem of C9 at \<^verbatim>\<open>["docs/a.pdf", "b.pdf", "bad/a.pdf"]\<close>: the key \<^verbatim>\<open>a.pdf\<close>
  stays first, with the text of the first file and the metadata of the third.
\<close>

theorem duplicate_basename_entry_witness:
  "2 \<le> length (filter (\<lambda>q. path_name q = ''a.pdf'') [''docs/a.pdf'', ''b.pdf'', ''bad/a.pdf''])
   \<and> (\<exists>r. extract_pdfs_with_metadata demo_world
             (PyList (map PyStr [''docs/a.pdf'', ''b.pdf'', ''bad/a.pdf''])) = Inr r
         \<and> map fst r = [''a.pdf'', ''b.pdf'']
         \<and> map_of r ''a.pdf'' =
             Some \<lparr>entry_text = ''Hello'' @ newline @ newline @ ''End'' @ newline,
                   entry_meta = MetadataError ''a.pdf'' ''EOF marker not found''\<rparr>)"
proof -
  have h: "2 \<le> length (filter (\<lambda>q. path_name q = ''a.pdf'') [''docs/a.pdf'', ''b.pdf'', ''bad/a.pdf''])"
    by (simp add: path_name_demo)
  have l1: "last_with (\<lambda>q. path_name q = ''a.pdf'') [''docs/a.pdf'', ''b.pdf'', ''bad/a.pdf''] = Some ''bad/a.pdf''"
    by (simp add: path_name_demo)
  have l2: "last_with (\<lambda>q. path_name q = ''a.pdf'' \<and> \<not> isl (extract_text_from_pdf demo_world q))
              [''docs/a.pdf'', ''b.pdf'', ''bad/a.pdf''] = Some ''docs/a.pdf''"
    by (simp add: path_name_demo extract_text_demo)
  have k: "keep_first (map path_name [''docs/a.pdf'', ''b.pdf'', ''bad/a.pdf'']) = [''a.pdf'', ''b.pdf'']"
    by (simp add: path_name_demo)
  obtain r p m where run: "extract_pdfs_with_metadata demo_world
             (PyList (map PyStr [''docs/a.pdf'', ''b.pdf'', ''bad/a.pdf''])) = Inr r"
    and keys: "map fst r = keep_first (map path_name [''docs/a.pdf'', ''b.pdf'', ''bad/a.pdf''])"
    and lw: "last_with (\<lambda>q. path_name q = ''a.pdf'') [''docs/a.pdf'', ''b.pdf'', ''bad/a.pdf''] = Some p"
    and m: "get_pdf_metadata demo_world p = Inr m"
    and v: "map_of r ''a.pdf'' =
               Some \<lparr>entry_text =
                       (case last_with (\<lambda>q. path_name q = ''a.pdf'' \<and> \<not> isl (extract_text_from_pdf demo_world q))
                               [''docs/a.pdf'', ''b.pdf'', ''bad/a.pdf''] of
                          None \<Rightarrow> []
                        | Some q \<Rightarrow> projr (extract_text_from_pdf demo_world q)),
                     entry_meta = m\<rparr>"
    using duplicate_basename_entry [OF h, of demo_world] by (elim exE conjE) (rule that)
  have "p = ''bad/a.pdf''" using lw l1 by simp
  then have m': "m = MetadataError ''a.pdf'' ''EOF marker not found''"
    using m get_pdf_metadata_demo(2) by simp
  have v': "map_of r ''a.pdf'' =
             Some \<lparr>entry_text = ''Hello'' @ newline @ newline @ ''End'' @ newline,
                   entry_meta = MetadataError ''a.pdf'' ''EOF marker not found''\<rparr>"
    using v unfolding l2 m' by (simp add: extract_text_demo(1))
  have keys': "map fst r = [''a.pdf'', ''b.pdf'']"
    using keys k by (rule trans)
  show ?thesis
  proof (intro conjI exI)
    show "2 \<le> length (filter (\<lambda>q. path_name q = ''a.pdf'') [''docs/a.pdf'', ''b.pdf'', ''bad/a.pdf''])"
      by (rule h)
    show "extract_pdfs_with_metadata demo_world
             (PyList (map PyStr [''docs/a.pdf'', ''b.pdf'', ''bad/a.pdf''])) = Inr r"
      by (rule run)
    show "map fst r = [''a.pdf'', ''b.pdf'']"
      by (rule keys')
    show "map_of r ''a.pdf'' =
             Some \<lparr>entry_text = ''Hello'' @ newline @ newline @ ''End'' @ newline,
                   entry_meta = MetadataError ''a.pdf'' ''EOF marker not found''\<rparr>"
      by (rule v')
  qed

qed

subsection \<open>The empty list\<close>

text \<open>
  C10. \<^verbatim>\<open>extract_pdfs_with_metadata\<close> on the empty list raises nothing and returns
  the empty mapping, and \<^verbatim>\<open>extract_text_from_multiple_pdfs\<close> on the empty list returns
  the empty mapping, its list of failed files being empty too.
\<close>

theorem empty_list_gives_empty_mapping:
  "extract_pdfs_with_metadata w (PyList []) = Inr []
   \<and> extract_text_from_multiple_pdfs w [] = Inr []
   \<and> extract_text_from_multiple_pdfs_locals w [] = Inr ([], [])"
  by (simp add: extract_pdfs_with_metadata_def extract_text_from_multiple_pdfs_def
      extract_text_from_multiple_pdfs_locals_def)

end
